theory Spec2Isabelle
  imports Complex_Main "HOL-Library.Char_ord" "HOL-Library.List_Lexorder"
    "HOL-Library.Product_Lexorder"
begin

section \<open>Decimal arithmetic and the precision policy\<close>

text \<open>
  The engines compute with decimal.js values. A decimal is modelled by the rational number
  it denotes; \<open>plus\<close>, \<open>minus\<close>, \<open>times\<close> and \<open>div\<close> are the exact operations (the
  library's working precision of 40 significant digits is not modelled). A decimal string
  produced by \<open>toFixed\<close> is modelled by its value.

  \<open>PrecisionPolicy.intermediate\<close> and \<open>PrecisionPolicy.final\<close> call
  \<open>toDecimalPlaces\<close> with 7 and 2 places and \<open>ROUND_HALF_UP\<close>, which rounds to the
  nearest neighbour and, when equidistant, away from zero.
\<close>

type_synonym decimal = rat

definition roundHalfUp :: "rat \<Rightarrow> int" where
  "roundHalfUp x = (if 0 \<le> x then \<lfloor>x + 1/2\<rfloor> else - \<lfloor>- x + 1/2\<rfloor>)"

definition toDecimalPlaces :: "nat \<Rightarrow> decimal \<Rightarrow> decimal" where
  "toDecimalPlaces dp x = of_int (roundHalfUp (x * 10 ^ dp)) / 10 ^ dp"

definition intermediate :: "decimal \<Rightarrow> decimal" where
  "intermediate v = toDecimalPlaces 7 v"

definition final :: "decimal \<Rightarrow> decimal" where
  "final v = toDecimalPlaces 2 v"

text \<open>\<open>x.toFixed(dp)\<close> rounds with the configured mode (\<open>ROUND_HALF_UP\<close>) and prints.\<close>

definition toFixed :: "nat \<Rightarrow> decimal \<Rightarrow> decimal" where
  "toFixed dp x = toDecimalPlaces dp x"

text \<open>A value has scale \<open>dp\<close> when rounding to \<open>dp\<close> places leaves it unchanged.\<close>

definition isScale :: "nat \<Rightarrow> decimal \<Rightarrow> bool" where
  "isScale dp x = (toDecimalPlaces dp x = x)"

section \<open>JavaScript values\<close>

text \<open>
  A numeric field of a request is absent (\<open>undefined\<close>, \<open>null\<close> or the empty string), a
  number, or a non-empty decimal string. In \<open>a || b\<close> a field counts when it is truthy: a
  number other than zero or a non-empty string. Strings that are not decimal numerals are
  outside the model.
\<close>

datatype jsnum = Absent | NumV rat | StrV rat

fun truthy :: "jsnum \<Rightarrow> bool" where
  "truthy Absent = False"
| "truthy (NumV x) = (x \<noteq> 0)"
| "truthy (StrV x) = True"

fun numval :: "jsnum \<Rightarrow> rat" where
  "numval Absent = 0"
| "numval (NumV x) = x"
| "numval (StrV x) = x"

text \<open>\<open>a || b || ... || d\<close> read as a decimal, \<open>d\<close> being the numeric default.\<close>

fun firstTruthy :: "jsnum list \<Rightarrow> rat \<Rightarrow> rat" where
  "firstTruthy [] d = d"
| "firstTruthy (x # xs) d = (if truthy x then numval x else firstTruthy xs d)"

text \<open>A string field is \<open>None\<close> when absent; the empty string is falsy as well.\<close>

fun strTruthy :: "string option \<Rightarrow> bool" where
  "strTruthy (Some (c # cs)) = True"
| "strTruthy _ = False"

definition strOr :: "string option \<Rightarrow> string option \<Rightarrow> string option" where
  "strOr a b = (if strTruthy a then a else b)"

definition strOrElse :: "string option \<Rightarrow> string \<Rightarrow> string" where
  "strOrElse a d = (if strTruthy a then the a else d)"

definition upperChar :: "char \<Rightarrow> char" where
  "upperChar c =
     (case map_of (zip ''abcdefghijklmnopqrstuvwxyz'' ''ABCDEFGHIJKLMNOPQRSTUVWXYZ'') c of
        Some u \<Rightarrow> u | None \<Rightarrow> c)"

definition lowerChar :: "char \<Rightarrow> char" where
  "lowerChar c =
     (case map_of (zip ''ABCDEFGHIJKLMNOPQRSTUVWXYZ'' ''abcdefghijklmnopqrstuvwxyz'') c of
        Some l \<Rightarrow> l | None \<Rightarrow> c)"

definition toUpperCase :: "string \<Rightarrow> string" where
  "toUpperCase s = map upperChar s"

definition toLowerCase :: "string \<Rightarrow> string" where
  "toLowerCase s = map lowerChar s"

text \<open>\<open>parts.join('|')\<close>.\<close>

fun joinBar :: "string list \<Rightarrow> string" where
  "joinBar [] = []"
| "joinBar [s] = s"
| "joinBar (s # t # ss) = s @ ''|'' @ joinBar (t # ss)"

section \<open>PureCalculationEngine: data\<close>

text \<open>A line item of the request, with the field spellings the engines read.\<close>

record line_item =
  line_item_id :: "string option"
  item_id :: "string option"
  unit_price :: jsnum
  unitPrice :: jsnum
  price :: jsnum
  quantity :: jsnum
  cost :: jsnum
  tax_setting :: "string option"
  taxSetting :: "string option"
  use_tax_eligible :: bool
  vendor_tax_collected :: bool

text \<open>A line item as \<open>normalizeInput\<close> rebuilds it.\<close>

record norm_item =
  n_id :: "string option"
  n_unitPrice :: decimal
  n_quantity :: rat
  n_cost :: decimal
  n_taxSetting :: string
  n_use_tax_eligible :: bool

record modifier =
  m_id :: string
  m_percent :: jsnum
  m_value :: jsnum
  m_fixed_amount :: jsnum
  m_chain_priority :: "int option"
  m_tax_setting :: "string option"
  m_line_item_id :: "string option"
  m_modifier_type :: "string option"
  m_category :: "string option"
  m_affects_quantity :: bool
  m_cost_percentage :: "string option"
  m_display_mode :: "string option"
  m_application_type :: "string option"
  m_product_id :: "string option"

text \<open>
  \<open>m_cost_percentage\<close> holds the printed form of a non-zero \<open>cost_percentage\<close>; it is only
  ever joined into the grouping key.
\<close>

record attributes =
  a_tax_setting :: "string option"
  a_modifier_type :: "string option"
  a_category :: "string option"
  a_affects_quantity :: bool
  a_cost_percentage :: "string option"
  a_display_mode :: "string option"
  a_application_type :: "string option"
  a_product_id :: "string option"

text \<open>
  A modifier group: built by \<open>groupModifiers\<close>, or passed in as \<open>preTaxGroups\<close> /
  \<open>postTaxGroups\<close>, where it may carry a pre-computed \<open>percent\<close>, \<open>value\<close> or
  \<open>fixed_amount\<close> instead of modifiers.
\<close>

record group =
  g_id :: string
  g_key :: string
  g_modifiers :: "modifier list"
  g_modifier_type :: "string option"
  g_application_type :: "string option"
  g_attributes :: "attributes option"
  g_percent :: jsnum
  g_value :: jsnum
  g_fixed_amount :: jsnum

record jurisdiction =
  j_code :: string
  j_order :: int
  j_rate :: decimal

record config =
  schemaVersion :: "string option"
  tax_rate :: jsnum
  use_tax_rate :: jsnum
  tax_mode :: "string option"
  jurisdictions :: "jurisdiction list"

record norm_config =
  nc_tax_rate :: decimal
  nc_use_tax_rate :: decimal
  nc_tax_mode :: string
  nc_jurisdictions :: "jurisdiction list"

text \<open>
  The request. \<open>dependencyDepth\<close> stands for the number that
  \<open>calculateDependencyDepth(input.dependencies)\<close> returns (0 without dependencies); the
  engine uses the dependencies for nothing else.
\<close>

record calc_input =
  lineItems :: "line_item list"
  modifiers :: "modifier list"
  dependencyDepth :: nat
  preTaxGroups :: "group list"
  postTaxGroups :: "group list"
  config :: config

record norm_input =
  ni_lineItems :: "norm_item list"
  ni_modifiers :: "modifier list"
  ni_preTaxGroups :: "group list"
  ni_postTaxGroups :: "group list"
  ni_config :: norm_config

record adjustment =
  groupId :: string
  amount :: decimal
  adj_attributes :: "attributes option"

record calc_state =
  baseSubtotal :: decimal
  runningSubtotal :: decimal
  adjustments :: "adjustment list"
  retailTaxAmount :: decimal
  useTaxAmount :: decimal

text \<open>
  The emitted result. The amounts are the values of the two-decimal strings; \<open>useTax\<close> and
  \<open>internalGrandTotal\<close> are \<open>None\<close> when the result object has no such field. The
  \<open>checksum\<close> that \<open>calculate\<close> adds last is the subject of the section on checksums.
\<close>

record calc_result =
  subtotal :: decimal
  modifierTotal :: decimal
  retailTax :: decimal
  customerGrandTotal :: decimal
  r_adjustments :: "adjustment list"
  useTax :: "decimal option"
  internalGrandTotal :: "decimal option"

datatype error = ValidationError string | InvalidMarginError

section \<open>PureCalculationEngine: validation and normalisation\<close>

definition maxModifiers :: nat where "maxModifiers = 1000"
definition maxLineItems :: nat where "maxLineItems = 5000"
definition maxDependencyDepth :: nat where "maxDependencyDepth = 10"

definition validateInput :: "calc_input \<Rightarrow> error + unit" where
  "validateInput input =
     (if \<not> strTruthy (schemaVersion (config input))
        then Inl (ValidationError ''Invalid input: schemaVersion is required'')
      else if length (modifiers input) > maxModifiers
        then Inl (ValidationError ''Too many modifiers'')
      else if length (lineItems input) > maxLineItems
        then Inl (ValidationError ''Too many line items'')
      else if dependencyDepth input > maxDependencyDepth
        then Inl (ValidationError ''Dependency chain too deep'')
      else if \<not> distinct (map m_id (modifiers input))
        then Inl (ValidationError ''Duplicate modifier ID'')
      else Inr ())"

definition normalizeLineItem :: "line_item \<Rightarrow> norm_item" where
  "normalizeLineItem item =
     \<lparr> n_id = strOr (line_item_id item) (item_id item),
       n_unitPrice = firstTruthy [unit_price item, unitPrice item, price item] 0,
       n_quantity = max 0 (numval (quantity item)),
       n_cost = firstTruthy [cost item, unitPrice item, unit_price item] 0,
       n_taxSetting = toUpperCase (strOrElse (strOr (tax_setting item) (taxSetting item)) ''TAXABLE''),
       n_use_tax_eligible = use_tax_eligible item \<rparr>"

definition chainPriority :: "modifier \<Rightarrow> int" where
  "chainPriority m = (case m_chain_priority m of None \<Rightarrow> 999 | Some p \<Rightarrow> if p = 0 then 999 else p)"

definition normalizeModifier :: "modifier \<Rightarrow> modifier" where
  "normalizeModifier m =
     m \<lparr> m_value := StrV (firstTruthy [m_value m] 0),
         m_chain_priority := Some (chainPriority m),
         m_application_type := Some (strOrElse (m_application_type m) ''pre_tax'') \<rparr>"

definition resolveModifierTaxSetting :: "modifier \<Rightarrow> norm_item list \<Rightarrow> string" where
  "resolveModifierTaxSetting m items =
     (let ts = toLowerCase (strOrElse (m_tax_setting m) ''taxable'') in
      if ts \<noteq> ''inherit'' then (if ts = ''non_taxable'' then ''non_taxable'' else ''taxable'')
      else if strTruthy (m_line_item_id m) then
        (case find (\<lambda>li. n_id li = m_line_item_id m) items of
           Some li \<Rightarrow>
             (if toUpperCase (n_taxSetting li) = ''NON_TAXABLE'' then ''non_taxable'' else ''taxable'')
         | None \<Rightarrow> ''taxable'')
      else ''taxable'')"

definition modifierAttributes :: "string \<Rightarrow> modifier \<Rightarrow> attributes" where
  "modifierAttributes resolved m =
     \<lparr> a_tax_setting = Some resolved,
       a_modifier_type = Some (strOrElse (m_modifier_type m) ''percentage''),
       a_category = Some (strOrElse (m_category m) ''general''),
       a_affects_quantity = m_affects_quantity m,
       a_cost_percentage = Some (strOrElse (m_cost_percentage m) ''0''),
       a_display_mode = Some (strOrElse (m_display_mode m) ''inline''),
       a_application_type = Some (strOrElse (m_application_type m) ''pre_tax''),
       a_product_id = (if strTruthy (m_product_id m) then m_product_id m else None) \<rparr>"

definition groupKey :: "string \<Rightarrow> modifier \<Rightarrow> string" where
  "groupKey resolved m =
     joinBar [resolved,
       strOrElse (m_modifier_type m) ''percentage'',
       strOrElse (m_category m) ''general'',
       (if m_affects_quantity m then ''true'' else ''false''),
       strOrElse (m_cost_percentage m) ''0'',
       strOrElse (m_display_mode m) ''inline'',
       strOrElse (m_application_type m) ''pre_tax'',
       strOrElse (m_product_id m) ''null'']"

definition newGroup :: "string \<Rightarrow> string \<Rightarrow> modifier \<Rightarrow> group" where
  "newGroup key resolved m =
     \<lparr> g_id = ''group-'' @ key, g_key = key, g_modifiers = [],
       g_modifier_type = Some (strOrElse (m_modifier_type m) ''percentage''),
       g_application_type = Some (strOrElse (m_application_type m) ''pre_tax''),
       g_attributes = Some (modifierAttributes resolved m),
       g_percent = Absent, g_value = Absent, g_fixed_amount = Absent \<rparr>"

text \<open>
  The insertion-ordered \<open>groupMap\<close>: a modifier joins the group of its key, a new key
  appends a group.
\<close>

fun addToGroup :: "string \<Rightarrow> modifier \<Rightarrow> group list \<Rightarrow> group list option" where
  "addToGroup key m [] = None"
| "addToGroup key m (g # gs) =
     (if g_key g = key then Some (g \<lparr> g_modifiers := g_modifiers g @ [m] \<rparr> # gs)
      else map_option ((#) g) (addToGroup key m gs))"

definition groupStep :: "norm_item list \<Rightarrow> group list \<Rightarrow> modifier \<Rightarrow> group list" where
  "groupStep items gs m =
     (let resolved = resolveModifierTaxSetting m items;
          key = groupKey resolved m
      in case addToGroup key m gs of
           Some gs' \<Rightarrow> gs'
         | None \<Rightarrow> gs @ [(newGroup key resolved m) \<lparr> g_modifiers := [m] \<rparr>])"

text \<open>
  \<open>Comparators.byChainPriorityThenId\<close>; \<open>localeCompare\<close> on the ids is taken to be the
  lexicographic order of the characters.
\<close>

definition groupModifiers :: "modifier list \<Rightarrow> norm_item list \<Rightarrow> group list" where
  "groupModifiers mods items =
     foldl (groupStep items) [] (sort_key (\<lambda>m. (chainPriority m, m_id m)) mods)"

definition normalizeConfig :: "config \<Rightarrow> norm_config" where
  "normalizeConfig c =
     \<lparr> nc_tax_rate = firstTruthy [tax_rate c] 0,
       nc_use_tax_rate = firstTruthy [use_tax_rate c] 0,
       nc_tax_mode = strOrElse (tax_mode c) ''RETAIL'',
       nc_jurisdictions = jurisdictions c \<rparr>"

definition normalizeInput :: "calc_input \<Rightarrow> norm_input" where
  "normalizeInput input =
     (let normalizedLineItems = map normalizeLineItem (lineItems input);
          normalizedModifiers = map normalizeModifier (modifiers input);
          derive = (preTaxGroups input = [] \<and> postTaxGroups input = [] \<and> normalizedModifiers \<noteq> []);
          groups = groupModifiers normalizedModifiers normalizedLineItems
      in \<lparr> ni_lineItems = normalizedLineItems,
           ni_modifiers = normalizedModifiers,
           ni_preTaxGroups =
             (if derive then filter (\<lambda>g. g_application_type g \<noteq> Some ''post_tax'') groups
              else preTaxGroups input),
           ni_postTaxGroups =
             (if derive then filter (\<lambda>g. g_application_type g = Some ''post_tax'') groups
              else postTaxGroups input),
           ni_config = normalizeConfig (config input) \<rparr>)"

section \<open>PureCalculationEngine: the computation\<close>

definition computeBaseSubtotal :: "norm_item list \<Rightarrow> decimal" where
  "computeBaseSubtotal items =
     foldl (\<lambda>sum item. intermediate (sum + n_unitPrice item * n_quantity item)) 0 items"

definition groupModifierType :: "group \<Rightarrow> string option" where
  "groupModifierType g =
     (case g_attributes g of
        Some a \<Rightarrow> (if strTruthy (a_modifier_type a) then a_modifier_type a else g_modifier_type g)
      | None \<Rightarrow> g_modifier_type g)"

definition marginValue :: "group \<Rightarrow> rat" where
  "marginValue g =
     (case g_modifiers g of
        m # ms \<Rightarrow> firstTruthy [m_value m] 0
      | [] \<Rightarrow> firstTruthy [g_value g] 0)"

definition marginLineDelta :: "rat \<Rightarrow> norm_item \<Rightarrow> decimal" where
  "marginLineDelta targetMargin item =
     (let newUnitPrice = intermediate (n_cost item / (1 - targetMargin))
      in intermediate ((newUnitPrice - n_unitPrice item) * n_quantity item))"

definition calculateMarginAdjustment :: "group \<Rightarrow> norm_item list \<Rightarrow> error + decimal" where
  "calculateMarginAdjustment g items =
     (let targetMargin = marginValue g / 100 in
      if targetMargin < 0 \<or> targetMargin \<ge> 1 then Inl InvalidMarginError
      else Inr (foldl (\<lambda>totalAdjustment item.
                         intermediate (totalAdjustment + marginLineDelta targetMargin item))
                  0 items))"

text \<open>\<open>mod.percent || mod.value || '0'\<close> and \<open>mod.fixed_amount || mod.value || '0'\<close>.\<close>

definition percentValue :: "modifier \<Rightarrow> rat" where
  "percentValue m = firstTruthy [m_percent m, m_value m] 0"

definition fixedValue :: "modifier \<Rightarrow> rat" where
  "fixedValue m = firstTruthy [m_fixed_amount m, m_value m] 0"

definition totalPercent :: "group \<Rightarrow> rat" where
  "totalPercent g =
     (if g_modifiers g \<noteq> []
      then foldl (\<lambda>total m. total + percentValue m) 0 (g_modifiers g)
      else firstTruthy [g_percent g, g_value g] 0)"

definition totalFixed :: "group \<Rightarrow> rat" where
  "totalFixed g =
     (if g_modifiers g \<noteq> []
      then foldl (\<lambda>total m. total + fixedValue m) 0 (g_modifiers g)
      else firstTruthy [g_fixed_amount g, g_value g] 0)"

definition calculateGroupAdjustment :: "group \<Rightarrow> decimal \<Rightarrow> norm_item list \<Rightarrow> error + decimal" where
  "calculateGroupAdjustment g basis items =
     (let modifierType = groupModifierType g in
      if modifierType = Some ''percentage'' then Inr (intermediate (basis * totalPercent g / 100))
      else if modifierType = Some ''fixed'' then Inr (intermediate (totalFixed g))
      else if modifierType = Some ''margin'' then calculateMarginAdjustment g items
      else Inr 0)"

text \<open>
  The loop of \<open>applyModifierGroups\<close>: the accumulator is the running subtotal and the
  adjustments recorded so far; an exception of a group ends the loop.
\<close>

fun applyGroupsLoop ::
  "norm_item list \<Rightarrow> group list \<Rightarrow> decimal \<times> adjustment list \<Rightarrow> error + decimal \<times> adjustment list"
where
  "applyGroupsLoop items [] acc = Inr acc"
| "applyGroupsLoop items (g # gs) (running, adjs) =
     (case calculateGroupAdjustment g running items of
        Inl e \<Rightarrow> Inl e
      | Inr adj \<Rightarrow>
          applyGroupsLoop items gs
            (intermediate (running + adj),
             adjs @ [\<lparr> groupId = g_id g, amount = toFixed 7 adj, adj_attributes = g_attributes g \<rparr>]))"

definition applyModifierGroups ::
  "calc_state \<Rightarrow> group list \<Rightarrow> norm_item list \<Rightarrow> error + calc_state" where
  "applyModifierGroups state groups items =
     (case applyGroupsLoop items groups (runningSubtotal state, adjustments state) of
        Inl e \<Rightarrow> Inl e
      | Inr (running, adjs) \<Rightarrow> Inr (state \<lparr> runningSubtotal := running, adjustments := adjs \<rparr>))"

definition calculateUseTaxBase :: "norm_item list \<Rightarrow> decimal" where
  "calculateUseTaxBase items =
     foldl (\<lambda>useTaxBase item.
              if n_use_tax_eligible item
              then intermediate (useTaxBase + intermediate (n_cost item * n_quantity item))
              else useTaxBase)
       0 items"

definition jurisdictionOrder :: "jurisdiction \<Rightarrow> int" where
  "jurisdictionOrder j = (if j_order j = 0 then 999 else j_order j)"

text \<open>
  The taxable base of \<open>calculateTaxes\<close>: the line totals of the items whose setting is
  \<open>TAXABLE\<close> (a quantity of 0 is read as 1 by \<open>item.quantity || 1\<close>), then the amounts of
  the adjustments whose resolved setting is \<open>taxable\<close>.
\<close>

definition taxableBaseOf :: "calc_state \<Rightarrow> norm_item list \<Rightarrow> decimal" where
  "taxableBaseOf state items =
     (let fromItems =
            foldl (\<lambda>taxableBase item.
                     if toUpperCase (n_taxSetting item) = ''TAXABLE''
                     then intermediate (taxableBase +
                            intermediate (n_unitPrice item *
                              (if n_quantity item = 0 then 1 else n_quantity item)))
                     else taxableBase)
              0 items
      in foldl (\<lambda>taxableBase adj.
                  if (case adj_attributes adj of Some a \<Rightarrow> a_tax_setting a = Some ''taxable'' | None \<Rightarrow> False)
                  then intermediate (taxableBase + amount adj)
                  else taxableBase)
           fromItems (adjustments state))"

definition calculateTaxes :: "calc_state \<Rightarrow> norm_config \<Rightarrow> norm_item list \<Rightarrow> calc_state" where
  "calculateTaxes state cfg items =
     (let taxableBase = taxableBaseOf state items;
          retail =
            (if nc_tax_mode cfg = ''RETAIL'' \<or> nc_tax_mode cfg = ''MIXED'' then
               (if nc_jurisdictions cfg \<noteq> [] then
                  foldl (\<lambda>retailTax j. intermediate (retailTax + intermediate (taxableBase * j_rate j)))
                    0 (sort_key (\<lambda>j. (jurisdictionOrder j, j_code j)) (nc_jurisdictions cfg))
                else intermediate (taxableBase * nc_tax_rate cfg))
             else 0);
          use =
            (if nc_tax_mode cfg = ''USE_TAX'' \<or> nc_tax_mode cfg = ''MIXED''
             then intermediate (calculateUseTaxBase items * nc_use_tax_rate cfg)
             else 0)
      in state \<lparr> retailTaxAmount := retail, useTaxAmount := use \<rparr>)"

definition buildResult :: "calc_state \<Rightarrow> norm_config \<Rightarrow> calc_result" where
  "buildResult state cfg =
     (let modifierTotalQ7 = foldl (\<lambda>sum adj. intermediate (sum + amount adj)) 0 (adjustments state);
          customerGrandTotalQ2 = final (runningSubtotal state + retailTaxAmount state)
      in \<lparr> subtotal = toFixed 2 (final (baseSubtotal state)),
           modifierTotal = toFixed 2 (final modifierTotalQ7),
           retailTax = toFixed 2 (final (retailTaxAmount state)),
           customerGrandTotal = toFixed 2 customerGrandTotalQ2,
           r_adjustments = map (\<lambda>adj. adj \<lparr> amount := toFixed 2 (amount adj) \<rparr>) (adjustments state),
           useTax =
             (if nc_tax_mode cfg = ''MIXED'' then Some (toFixed 2 (final (useTaxAmount state))) else None),
           internalGrandTotal =
             (if nc_tax_mode cfg = ''MIXED''
              then Some (toFixed 2 (final (customerGrandTotalQ2 + useTaxAmount state))) else None) \<rparr>)"

definition initialState :: "norm_input \<Rightarrow> calc_state" where
  "initialState n =
     \<lparr> baseSubtotal = computeBaseSubtotal (ni_lineItems n),
       runningSubtotal = computeBaseSubtotal (ni_lineItems n),
       adjustments = [],
       retailTaxAmount = 0,
       useTaxAmount = 0 \<rparr>"

text \<open>
  \<open>calculate\<close> up to its final state: validation, normalisation, the pre-tax groups, the
  taxes, the post-tax groups. The states after the pre-tax groups and at the end are both
  returned, so that the theorems can name the Q7 components.
\<close>

definition calculateStates :: "calc_input \<Rightarrow> error + calc_state \<times> calc_state" where
  "calculateStates input =
     (case validateInput input of
        Inl e \<Rightarrow> Inl e
      | Inr _ \<Rightarrow>
          (let n = normalizeInput input in
           case applyModifierGroups (initialState n) (ni_preTaxGroups n) (ni_lineItems n) of
             Inl e \<Rightarrow> Inl e
           | Inr afterPreTax \<Rightarrow>
               (let afterTax = calculateTaxes afterPreTax (ni_config n) (ni_lineItems n) in
                case applyModifierGroups afterTax (ni_postTaxGroups n) (ni_lineItems n) of
                  Inl e \<Rightarrow> Inl e
                | Inr finalState \<Rightarrow> Inr (afterPreTax, finalState))))"

definition calculate :: "calc_input \<Rightarrow> error + calc_result" where
  "calculate input =
     (case calculateStates input of
        Inl e \<Rightarrow> Inl e
      | Inr (afterPreTax, finalState) \<Rightarrow>
          Inr (buildResult finalState (normalizeConfig (config input))))"

section \<open>CompliantCalculationEngine (archived): base totals and group application\<close>

text \<open>
  The archived engine reads the request's line items as they are. The line total is
  \<open>new Decimal(item.unit_price || item.unitPrice || item.price || 0).times(item.quantity || 0)\<close>.
\<close>

definition lineTotal :: "line_item \<Rightarrow> decimal" where
  "lineTotal item =
     firstTruthy [unit_price item, unitPrice item, price item] 0 * firstTruthy [quantity item] 0"

record base_calc =
  bc_subtotal :: decimal
  bc_taxableSubtotal :: decimal
  bc_nonTaxableSubtotal :: decimal

definition calculateBase :: "line_item list \<Rightarrow> base_calc" where
  "calculateBase items =
     (case foldl (\<lambda>(sub, taxableSubtotal, nonTaxableSubtotal) item.
                    let total = lineTotal item;
                        setting = toUpperCase (strOrElse (tax_setting item) ''TAXABLE'')
                    in if setting = ''TAXABLE''
                         then (sub + total, taxableSubtotal + total, nonTaxableSubtotal)
                       else if setting = ''NON_TAXABLE''
                         then (sub + total, taxableSubtotal, nonTaxableSubtotal + total)
                       else (sub + total, taxableSubtotal + total, nonTaxableSubtotal))
             (0, 0, 0) items of
        (sub, taxableSubtotal, nonTaxableSubtotal) \<Rightarrow>
          \<lparr> bc_subtotal = toFixed 7 (intermediate sub),
            bc_taxableSubtotal = toFixed 7 (intermediate taxableSubtotal),
            bc_nonTaxableSubtotal = toFixed 7 (intermediate nonTaxableSubtotal) \<rparr>)"

definition sortedModifiers :: "modifier list \<Rightarrow> modifier list" where
  "sortedModifiers ms = sort_key (\<lambda>m. (chainPriority m, m_id m)) ms"

text \<open>The base of a percentage group in \<open>applyGroup\<close>, for one tax setting of the lines.\<close>

definition partitionBase :: "string \<Rightarrow> line_item list \<Rightarrow> decimal" where
  "partitionBase setting items =
     foldl (\<lambda>sum item.
              if toUpperCase (strOrElse (tax_setting item) []) = setting then sum + lineTotal item
              else sum)
       0 items"

text \<open>\<open>applyGroup\<close>, branch \<open>modifierType === 'percentage'\<close>: the adjustment it returns.\<close>

definition applyGroup_percentage :: "attributes \<Rightarrow> modifier list \<Rightarrow> decimal \<Rightarrow> line_item list \<Rightarrow> decimal" where
  "applyGroup_percentage attrs mods runningTotal items =
     (let setting = toLowerCase (strOrElse (a_tax_setting attrs) ''taxable'');
          combinedRate = foldl (\<lambda>rate m. rate + firstTruthy [m_percent m] 0) 0 (sortedModifiers mods);
          base = (if setting = ''taxable'' then partitionBase ''TAXABLE'' items
                  else if setting = ''non_taxable'' then partitionBase ''NON_TAXABLE'' items
                  else runningTotal)
      in base * (combinedRate / 100))"

record allocation =
  al_line_item_id :: "string option"
  allocation_precise :: decimal

definition fixedAdjustment :: "modifier list \<Rightarrow> decimal" where
  "fixedAdjustment mods =
     foldl (\<lambda>adj m. adj + firstTruthy [m_fixed_amount m] 0) 0 (sortedModifiers mods)"

definition totalBase :: "line_item list \<Rightarrow> decimal" where
  "totalBase items = foldl (\<lambda>sum item. sum + lineTotal item) 0 items"

definition firstPass :: "decimal \<Rightarrow> decimal \<Rightarrow> line_item list \<Rightarrow> allocation list" where
  "firstPass adj base items =
     map (\<lambda>item. \<lparr> al_line_item_id = strOr (line_item_id item) (item_id item),
                    allocation_precise = toFixed 7 (intermediate (adj * (lineTotal item / base))) \<rparr>)
       items"

definition adjustLast :: "decimal \<Rightarrow> allocation list \<Rightarrow> allocation list" where
  "adjustLast diff allocations =
     (if diff \<noteq> 0 \<and> allocations \<noteq> []
      then butlast allocations @
             [(last allocations) \<lparr> allocation_precise :=
                 toFixed 7 (intermediate (allocation_precise (last allocations) + diff)) \<rparr>]
      else allocations)"

text \<open>
  \<open>applyGroup\<close>, branch \<open>modifierType === 'fixed'\<close>: the adjustment and the per-line
  allocations it returns. \<open>applyModifierGroups\<close> then records the group's amount as
  \<open>adjustment.toFixed(7)\<close>.
\<close>

definition applyGroup_fixed :: "modifier list \<Rightarrow> line_item list \<Rightarrow> decimal \<times> allocation list" where
  "applyGroup_fixed mods items =
     (let adj = fixedAdjustment mods;
          base = totalBase items
      in if base > 0 then
           (let allocations = firstPass adj base items;
                allocatedSum = foldl (\<lambda>sum a. sum + allocation_precise a) 0 allocations;
                diff = intermediate (adj - allocatedSum)
            in (adj, adjustLast diff allocations))
         else
           (adj, map (\<lambda>item. \<lparr> al_line_item_id = strOr (line_item_id item) (item_id item),
                                allocation_precise = 0 \<rparr>) items))"

definition groupAmountQ7 :: "decimal \<times> allocation list \<Rightarrow> decimal" where
  "groupAmountQ7 res = toFixed 7 (fst res)"

definition allocationSum :: "decimal \<times> allocation list \<Rightarrow> decimal" where
  "allocationSum res = sum_list (map allocation_precise (snd res))"

text \<open>A Q7 tie: the value lies exactly halfway between two neighbours at seven places.\<close>

definition isTie :: "nat \<Rightarrow> decimal \<Rightarrow> bool" where
  "isTie dp x = (frac (x * 10 ^ dp) = 1 / 2)"

section \<open>Checksums\<close>

datatype json = JUndefined | JNull | JStr string | JNum string | JArr "json list"
  | JObj "(string \<times> json) list"

text \<open>
  JSON text. \<open>JNum\<close> carries the printed number. Quoting escapes the double quote and the
  backslash; the escapes of control characters are not modelled.
\<close>

definition escapeChar :: "char \<Rightarrow> string" where
  "escapeChar c =
     (if c = CHR 0x22 then [CHR 0x5C, CHR 0x22]
      else if c = CHR 0x5C then [CHR 0x5C, CHR 0x5C] else [c])"

definition quoteJSON :: "string \<Rightarrow> string" where
  "quoteJSON s = [CHR 0x22] @ concat (map escapeChar s) @ [CHR 0x22]"

fun joinComma :: "string list \<Rightarrow> string" where
  "joinComma [] = []"
| "joinComma [s] = s"
| "joinComma (s # t # ss) = s @ '','' @ joinComma (t # ss)"

text \<open>
  \<open>JSON.stringify(value, allow)\<close> with an array as replacer: of every object, at every
  depth, only the properties named in the array are written, in the array's order.
  \<open>None\<close> is \<open>undefined\<close> (the property is left out).
\<close>

fun stringifyWith :: "string list \<Rightarrow> json \<Rightarrow> string option" where
  "stringifyWith allow JUndefined = None"
| "stringifyWith allow JNull = Some ''null''"
| "stringifyWith allow (JStr s) = Some (quoteJSON s)"
| "stringifyWith allow (JNum s) = Some s"
| "stringifyWith allow (JArr xs) =
     Some (''['' @ joinComma (map (\<lambda>x. case stringifyWith allow x of
                                           None \<Rightarrow> ''null'' | Some s \<Rightarrow> s) xs) @ '']'')"
| "stringifyWith allow (JObj props) =
     Some (''{'' @ joinComma (concat (map (\<lambda>k.
              concat (map (\<lambda>(k', v).
                        if k' = k
                        then (case stringifyWith allow v of
                                None \<Rightarrow> [] | Some s \<Rightarrow> [quoteJSON k @ '':'' @ s])
                        else [])
                      props))
            (remdups allow))) @ ''}'')"

text \<open>\<open>JSON.stringify(value)\<close> without a replacer.\<close>

fun stringify :: "json \<Rightarrow> string option" where
  "stringify JUndefined = None"
| "stringify JNull = Some ''null''"
| "stringify (JStr s) = Some (quoteJSON s)"
| "stringify (JNum s) = Some s"
| "stringify (JArr xs) =
     Some (''['' @ joinComma (map (\<lambda>x. case stringify x of None \<Rightarrow> ''null'' | Some s \<Rightarrow> s) xs)
           @ '']'')"
| "stringify (JObj props) =
     Some (''{'' @ joinComma (concat (map (\<lambda>(k, v).
              case stringify v of None \<Rightarrow> [] | Some s \<Rightarrow> [quoteJSON k @ '':'' @ s]) props))
           @ ''}'')"

text \<open>
  \<open>PureCalculationEngine.canonicalize\<close>: the keys of every object sorted, arrays in order,
  numbers turned into strings.
\<close>

fun canonicalize :: "json \<Rightarrow> json" where
  "canonicalize (JArr xs) = JArr (map canonicalize xs)"
| "canonicalize (JObj props) = JObj (map (\<lambda>(k, v). (k, canonicalize v)) (sort_key fst props))"
| "canonicalize (JNum s) = JStr s"
| "canonicalize j = j"

text \<open>
  \<open>PureCalculationEngine.generateChecksum\<close>; \<open>sha256\<close> stands for the hex digest of
  SHA-256.
\<close>

definition generateChecksum :: "(string \<Rightarrow> string) \<Rightarrow> json \<Rightarrow> string" where
  "generateChecksum sha256 result = sha256 (the (stringify (canonicalize result)))"

fun showNat :: "nat \<Rightarrow> string" where
  "showNat n =
     (if n < 10 then [char_of (48 + n)] else showNat (n div 10) @ [char_of (48 + n mod 10)])"

text \<open>The fields of a \<open>CalculationResult\<close> that its \<open>generateChecksum\<close> reads.\<close>

record calculation_result =
  cr_proposalId :: string
  cr_version :: nat
  subtotalPrecise :: string
  modifierTotalPrecise :: string
  taxAmountPrecise :: string
  useTaxAmountPrecise :: string
  grandTotalPrecise :: string

definition checksumData :: "calculation_result \<Rightarrow> json" where
  "checksumData r =
     JObj [(''proposalId'', JStr (cr_proposalId r)),
           (''version'', JNum (showNat (cr_version r))),
           (''precise'',
              JObj [(''subtotal'', JStr (subtotalPrecise r)),
                    (''modifiers'', JStr (modifierTotalPrecise r)),
                    (''retailTax'', JStr (taxAmountPrecise r)),
                    (''useTax'', JStr (if useTaxAmountPrecise r = [] then ''0.0000000''
                                       else useTaxAmountPrecise r)),
                    (''grandTotal'', JStr (grandTotalPrecise r))])]"

fun objectKeys :: "json \<Rightarrow> string list" where
  "objectKeys (JObj props) = map fst props"
| "objectKeys j = []"

text \<open>
  \<open>CalculationResult.generateChecksum\<close>: its local \<open>canonicalize\<close> is
  \<open>JSON.stringify(obj, Object.keys(obj).sort())\<close>.
\<close>

definition resultChecksum :: "(string \<Rightarrow> string) \<Rightarrow> calculation_result \<Rightarrow> string" where
  "resultChecksum sha256 r =
     sha256 (the (stringifyWith (sort (objectKeys (checksumData r))) (checksumData r)))"

section \<open>SafeRuleEvaluator\<close>

datatype jsvalue = VUndefined | VNull | VBool bool | VNum rat | VStr string
  | VObj "(string \<times> jsvalue) list"

datatype node =
    Comparison string node node
  | Logical string node node
  | Literal jsvalue
  | Field string
  | Other string

datatype rule_error =
    DepthExceeded nat
  | OperationsExceeded nat
  | InvalidRuleType string
  | InvalidLogicalOperator string
  | InvalidOperator string

definition maxDepth :: nat where "maxDepth = 10"
definition maxOperations :: nat where "maxOperations = 1000"

fun jsTruthy :: "jsvalue \<Rightarrow> bool" where
  "jsTruthy VUndefined = False"
| "jsTruthy VNull = False"
| "jsTruthy (VBool b) = b"
| "jsTruthy (VNum x) = (x \<noteq> 0)"
| "jsTruthy (VStr s) = (s \<noteq> [])"
| "jsTruthy (VObj ps) = True"

text \<open>\<open>path.split('.')\<close>.\<close>

fun splitDots :: "string \<Rightarrow> string \<Rightarrow> string list" where
  "splitDots acc [] = [rev acc]"
| "splitDots acc (c # cs) = (if c = CHR ''.'' then rev acc # splitDots [] cs else splitDots (c # acc) cs)"

text \<open>
  \<open>value[part]\<close>: the property of an object; a missing property, or any property of a
  primitive, is \<open>undefined\<close> (the built-in properties of strings are not modelled).
\<close>

fun property :: "jsvalue \<Rightarrow> string \<Rightarrow> jsvalue" where
  "property (VObj ps) part = (case map_of ps part of Some v \<Rightarrow> v | None \<Rightarrow> VUndefined)"
| "property v part = VUndefined"

fun walkPath :: "jsvalue \<Rightarrow> string list \<Rightarrow> jsvalue" where
  "walkPath v [] = v"
| "walkPath v (part # parts) =
     (if v = VNull \<or> v = VUndefined then VUndefined else walkPath (property v part) parts)"

definition getFieldValue :: "string \<Rightarrow> jsvalue \<Rightarrow> jsvalue" where
  "getFieldValue path ctx = (if path = [] then VUndefined else walkPath ctx (splitDots [] path))"

text \<open>
  The two checks at the head of \<open>evalNode\<close>, then the rest of the call with the
  incremented operation counter. The counter is the evaluator's \<open>operationCount\<close>, passed
  in and returned.
\<close>

definition guard ::
  "nat \<Rightarrow> nat \<Rightarrow> (nat \<Rightarrow> (rule_error + jsvalue) \<times> nat) \<Rightarrow> (rule_error + jsvalue) \<times> nat" where
  "guard depth count body =
     (if depth > maxDepth then (Inl (DepthExceeded depth), count)
      else if count + 1 > maxOperations then (Inl (OperationsExceeded (count + 1)), count + 1)
      else body (count + 1))"

text \<open>
  \<open>evalNode\<close>, with \<open>evalComparison\<close> and \<open>evalLogical\<close> inlined. The method \<open>compare\<close>
  is the parameter \<open>cmp\<close>: it neither calls \<open>evalNode\<close> nor touches the counter, and
  everything below holds whatever it returns.
\<close>

fun evalNode ::
  "(jsvalue \<Rightarrow> jsvalue \<Rightarrow> string \<Rightarrow> rule_error + jsvalue) \<Rightarrow> jsvalue \<Rightarrow> node \<Rightarrow> nat \<Rightarrow> nat
     \<Rightarrow> (rule_error + jsvalue) \<times> nat"
where
  "evalNode cmp ctx (Comparison op l r) depth count =
     guard depth count (\<lambda>c.
       case evalNode cmp ctx l (depth + 1) c of
         (Inl e, c1) \<Rightarrow> (Inl e, c1)
       | (Inr left, c1) \<Rightarrow>
           (case evalNode cmp ctx r (depth + 1) c1 of
              (Inl e, c2) \<Rightarrow> (Inl e, c2)
            | (Inr right, c2) \<Rightarrow> (cmp left right op, c2)))"
| "evalNode cmp ctx (Logical op l r) depth count =
     guard depth count (\<lambda>c.
       if toUpperCase op = ''AND'' then
         (case evalNode cmp ctx l (depth + 1) c of
            (Inl e, c1) \<Rightarrow> (Inl e, c1)
          | (Inr left, c1) \<Rightarrow>
              if \<not> jsTruthy left then (Inr (VBool False), c1)
              else evalNode cmp ctx r (depth + 1) c1)
       else if toUpperCase op = ''OR'' then
         (case evalNode cmp ctx l (depth + 1) c of
            (Inl e, c1) \<Rightarrow> (Inl e, c1)
          | (Inr left, c1) \<Rightarrow>
              if jsTruthy left then (Inr (VBool True), c1)
              else evalNode cmp ctx r (depth + 1) c1)
       else (Inl (InvalidLogicalOperator op), c))"
| "evalNode cmp ctx (Literal v) depth count = guard depth count (\<lambda>c. (Inr v, c))"
| "evalNode cmp ctx (Field path) depth count =
     guard depth count (\<lambda>c. (Inr (getFieldValue path ctx), c))"
| "evalNode cmp ctx (Other t) depth count =
     guard depth count (\<lambda>c. (Inl (InvalidRuleType t), c))"

definition evaluate ::
  "(jsvalue \<Rightarrow> jsvalue \<Rightarrow> string \<Rightarrow> rule_error + jsvalue) \<Rightarrow> node \<Rightarrow> jsvalue
     \<Rightarrow> (rule_error + jsvalue) \<times> nat" where
  "evaluate cmp rule ctx = evalNode cmp ctx rule 0 0"

section \<open>PostProcessor\<close>

text \<open>The fields of a result that the commit stage reads or sets.\<close>

record commit_result =
  pr_checksum :: string
  pr_proposalId :: "string option"
  pr_subtotal :: string
  pr_total :: "string option"
  pr_customerGrandTotal :: string
  pr_modifierCount :: nat

record request =
  rq_proposalId :: "string option"
  rq_proposal_id :: "string option"

record result_row =
  row_proposal_id :: "string option"
  row_subtotal :: string
  row_total :: string
  row_checksum :: string

record outbox_row =
  ob_event_type :: string
  ob_aggregate_id :: "string option"
  ob_payload :: commit_result
  ob_checksum :: string
  ob_status :: string

datatype metric = CalculationMetric nat "string option" | ErrorMetric string

text \<open>
  The state the commit stage works on: the idempotency map, the statements executed
  against the tables \<open>calculation_results\<close> and \<open>event_outbox\<close> (in order), the audit
  table of the persistence contract, the result cache, the registered webhooks with the
  calls made to them, and the recorded metrics. Timestamps and durations are left out.
\<close>

record pp_state =
  idempotencyCache :: "string \<Rightarrow> commit_result option"
  calculation_results :: "result_row list"
  calc_audit :: "string list"
  event_outbox :: "outbox_row list"
  resultCache :: "string \<Rightarrow> commit_result option"
  webhooks :: "string \<Rightarrow> string list"
  webhookCalls :: "(string \<times> commit_result) list"
  metricsLog :: "metric list"

text \<open>Which of the calls to the database and the cache throw in one run of \<open>process\<close>.\<close>

record faults =
  beginFails :: bool
  persistFails :: bool
  outboxFails :: bool
  cacheFails :: bool
  commitFails :: bool

datatype pp_error = DatabaseError string | CacheError

definition persistRow :: "commit_result \<Rightarrow> result_row" where
  "persistRow result =
     \<lparr> row_proposal_id = pr_proposalId result,
       row_subtotal = pr_subtotal result,
       row_total = strOrElse (pr_total result) (pr_customerGrandTotal result),
       row_checksum = pr_checksum result \<rparr>"

definition outboxEvent :: "commit_result \<Rightarrow> outbox_row" where
  "outboxEvent result =
     \<lparr> ob_event_type = ''calculation.completed'',
       ob_aggregate_id = pr_proposalId result,
       ob_payload = result,
       ob_checksum = pr_checksum result,
       ob_status = ''PENDING'' \<rparr>"

text \<open>
  \<open>executeInTransaction\<close> around the callback of \<open>process\<close>. A statement that throws
  rolls the two tables back to their contents at \<open>BEGIN\<close>; the cache update, the metric
  and the webhook calls made before a failing \<open>COMMIT\<close> stay.
\<close>

definition executeInTransaction ::
  "faults \<Rightarrow> commit_result \<Rightarrow> request \<Rightarrow> pp_state \<Rightarrow> (pp_error + commit_result) \<times> pp_state" where
  "executeInTransaction f result request st =
     (if beginFails f then (Inl (DatabaseError ''begin''), st)
      else
        (let result' = result \<lparr> pr_proposalId :=
                         strOr (pr_proposalId result)
                           (strOr (rq_proposalId request) (rq_proposal_id request)) \<rparr>
         in if persistFails f then (Inl (DatabaseError ''persist''), st)
            else if outboxFails f then (Inl (DatabaseError ''outbox''), st)
            else if cacheFails f then (Inl CacheError, st)
            else
              (let st' = st \<lparr> resultCache := (resultCache st)(pr_checksum result' \<mapsto> result'),
                              metricsLog := metricsLog st @
                                [CalculationMetric (pr_modifierCount result') (pr_proposalId result')],
                              webhookCalls := webhookCalls st @
                                map (\<lambda>url. (url, result')) (webhooks st ''calculation'') \<rparr>
               in if commitFails f then (Inl (DatabaseError ''commit''), st')
                  else (Inr result',
                        st' \<lparr> calculation_results := calculation_results st @ [persistRow result'],
                              event_outbox := event_outbox st @ [outboxEvent result'] \<rparr>))))"

definition process ::
  "faults \<Rightarrow> commit_result \<Rightarrow> request \<Rightarrow> pp_state \<Rightarrow> (pp_error + commit_result) \<times> pp_state" where
  "process f result request st =
     (case idempotencyCache st (pr_checksum result) of
        Some existing \<Rightarrow> (Inr existing, st)
      | None \<Rightarrow>
          (case executeInTransaction f result request st of
             (Inl e, st') \<Rightarrow> (Inl e, st' \<lparr> metricsLog := metricsLog st' @ [ErrorMetric ''post_processor''] \<rparr>)
           | (Inr finalResult, st') \<Rightarrow>
               (Inr finalResult,
                st' \<lparr> idempotencyCache := (idempotencyCache st')(pr_checksum result \<mapsto> finalResult) \<rparr>)))"

section \<open>The base of a percentage group, as the specification words it\<close>


section \<open>Example requests\<close>

definition emptyItem :: line_item where
  "emptyItem =
     \<lparr> line_item_id = None, item_id = None, unit_price = Absent, unitPrice = Absent,
       price = Absent, quantity = Absent, cost = Absent, tax_setting = None, taxSetting = None,
       use_tax_eligible = False, vendor_tax_collected = False \<rparr>"

definition emptyModifier :: modifier where
  "emptyModifier =
     \<lparr> m_id = [], m_percent = Absent, m_value = Absent, m_fixed_amount = Absent,
       m_chain_priority = None, m_tax_setting = None, m_line_item_id = None,
       m_modifier_type = None, m_category = None, m_affects_quantity = False,
       m_cost_percentage = None, m_display_mode = None, m_application_type = None,
       m_product_id = None \<rparr>"

definition retailConfig :: config where
  "retailConfig =
     \<lparr> schemaVersion = Some ''1.0'', tax_rate = StrV (1 / 10), use_tax_rate = Absent,
       tax_mode = Some ''RETAIL'', jurisdictions = [] \<rparr>"


definition discountAttributes :: attributes where
  "discountAttributes =
     \<lparr> a_tax_setting = Some ''taxable'', a_modifier_type = Some ''percentage'',
       a_category = Some ''general'', a_affects_quantity = False, a_cost_percentage = Some ''0'',
       a_display_mode = Some ''inline'', a_application_type = Some ''pre_tax'',
       a_product_id = None \<rparr>"





text \<open>
  A taxable line of 2 x 150.00 and a non-taxable line of 3 x 75.00, with a taxable
  10 percent pre-tax discount.
\<close>

definition mixedInput :: calc_input where
  "mixedInput =
     \<lparr> lineItems = [emptyItem \<lparr> item_id := Some ''a'', unitPrice := StrV 150, quantity := NumV 2,
                      taxSetting := Some ''TAXABLE'' \<rparr>,
                    emptyItem \<lparr> item_id := Some ''b'', unitPrice := StrV 75, quantity := NumV 3,
                      taxSetting := Some ''NON_TAXABLE'' \<rparr>],
       modifiers = [emptyModifier \<lparr> m_id := ''d'', m_modifier_type := Some ''percentage'',
                      m_value := StrV (- 10), m_tax_setting := Some ''taxable'',
                      m_application_type := Some ''pre_tax'' \<rparr>],
       dependencyDepth = 0, preTaxGroups = [], postTaxGroups = [],
       config = retailConfig \<rparr>"



text \<open>A line of 1 x 100.00 with cost 100.00, and margin groups with the given values.\<close>

definition marginItem :: norm_item where
  "marginItem = \<lparr> n_id = Some ''a'', n_unitPrice = 100, n_quantity = 1, n_cost = 100,
     n_taxSetting = ''TAXABLE'', n_use_tax_eligible = False \<rparr>"





text \<open>The single modifier that carries a summed value.\<close>

definition summedModifier :: "rat \<Rightarrow> modifier" where
  "summedModifier v = emptyModifier \<lparr> m_value := StrV v \<rparr>"


text \<open>
  The use-tax request: one line with unit price 0.00, quantity 1, cost 1000.00, eligible for
  use tax, no vendor tax collected; no modifiers; use-tax rate 0.08; the tax mode is the
  parameter.
\<close>

definition useTaxInput :: "string \<Rightarrow> calc_input" where
  "useTaxInput mode =
     \<lparr> lineItems = [emptyItem \<lparr> item_id := Some ''a'', unitPrice := StrV 0, quantity := NumV 1,
                      cost := StrV 1000, use_tax_eligible := True,
                      vendor_tax_collected := False \<rparr>],
       modifiers = [], dependencyDepth = 0, preTaxGroups = [], postTaxGroups = [],
       config = \<lparr> schemaVersion = Some ''1.0'', tax_rate = Absent, use_tax_rate = StrV (8 / 100),
                  tax_mode = Some mode, jurisdictions = [] \<rparr> \<rparr>"

definition useTaxState :: calc_state where
  "useTaxState =
     \<lparr> baseSubtotal = 0, runningSubtotal = 0, adjustments = [], retailTaxAmount = 0,
       useTaxAmount = 80 \<rparr>"

definition useTaxResult :: "decimal option \<Rightarrow> calc_result" where
  "useTaxResult u =
     \<lparr> subtotal = 0, modifierTotal = 0, retailTax = 0, customerGrandTotal = 0,
       r_adjustments = [], useTax = u, internalGrandTotal = u \<rparr>"






definition fixedModifier :: "rat \<Rightarrow> modifier" where
  "fixedModifier v = emptyModifier \<lparr> m_id := ''f'', m_fixed_amount := NumV v \<rparr>"

text \<open>Two results of one proposal and version whose amounts all differ.\<close>

definition resultA :: calculation_result where
  "resultA =
     \<lparr> cr_proposalId = ''p1'', cr_version = 1, subtotalPrecise = ''200.0000000'',
       modifierTotalPrecise = ''0.0000000'', taxAmountPrecise = ''20.0000000'',
       useTaxAmountPrecise = ''0.0000000'', grandTotalPrecise = ''220.0000000'' \<rparr>"

definition resultB :: calculation_result where
  "resultB =
     \<lparr> cr_proposalId = ''p1'', cr_version = 1, subtotalPrecise = ''999.0000000'',
       modifierTotalPrecise = ''-30.0000000'', taxAmountPrecise = ''96.9000000'',
       useTaxAmountPrecise = ''5.0000000'', grandTotalPrecise = ''1065.9000000'' \<rparr>"

text \<open>A chain of comparisons nested to the given number of levels below the root.\<close>

fun nested :: "nat \<Rightarrow> node" where
  "nested 0 = Literal (VNum 1)"
| "nested (Suc n) = Comparison ''=='' (nested n) (Literal (VNum 1))"

text \<open>A result as the engine hands it over, a request, an empty store, and a run without faults.\<close>

definition sampleResult :: commit_result where
  "sampleResult =
     \<lparr> pr_checksum = ''abc'', pr_proposalId = None, pr_subtotal = ''200.00'', pr_total = None,
       pr_customerGrandTotal = ''220.00'', pr_modifierCount = 0 \<rparr>"

definition sampleRequest :: request where
  "sampleRequest = \<lparr> rq_proposalId = Some ''p1'', rq_proposal_id = None \<rparr>"

definition emptyState :: pp_state where
  "emptyState =
     \<lparr> idempotencyCache = (\<lambda>k. None), calculation_results = [], calc_audit = [],
       event_outbox = [], resultCache = (\<lambda>k. None), webhooks = (\<lambda>e. []), webhookCalls = [],
       metricsLog = [] \<rparr>"

definition noFaults :: faults where
  "noFaults =
     \<lparr> beginFails = False, persistFails = False, outboxFails = False, cacheFails = False,
       commitFails = False \<rparr>"

text \<open>The state after submitting the sample result once, and after submitting it twice.\<close>

definition afterFirst :: pp_state where
  "afterFirst = snd (process noFaults sampleResult sampleRequest emptyState)"

definition afterSecond :: pp_state where
  "afterSecond = snd (process noFaults sampleResult sampleRequest afterFirst)"

text \<open>The same two lines as the archived engine reads them, with \<open>tax_setting\<close>.\<close>

definition mixedRawItems :: "line_item list" where
  "mixedRawItems =
     [emptyItem \<lparr> item_id := Some ''a'', unit_price := StrV 150, quantity := NumV 2,
        tax_setting := Some ''TAXABLE'' \<rparr>,
      emptyItem \<lparr> item_id := Some ''b'', unit_price := StrV 75, quantity := NumV 3,
        tax_setting := Some ''NON_TAXABLE'' \<rparr>]"

section \<open>Rounding lemmas\<close>

lemma floor_numeral_div_rat [simp]:
  "\<lfloor>(numeral a :: rat) / numeral b\<rfloor> = numeral a div numeral b"
  using floor_divide_of_int_eq [of "numeral a" "numeral b", where ?'a = rat] by simp

lemma floor_one_div_numeral_rat [simp]: "\<lfloor>(1 :: rat) / numeral b\<rfloor> = 1 div numeral b"
  using floor_divide_of_int_eq [of 1 "numeral b", where ?'a = rat] by simp

lemma floor_neg_numeral_div_rat [simp]:
  "\<lfloor>- (numeral a :: rat) / numeral b\<rfloor> = - numeral a div numeral b"
  using floor_divide_of_int_eq [of "- numeral a" "numeral b", where ?'a = rat] by simp

lemma roundHalfUp_of_int: "roundHalfUp (of_int k) = k"
proof (cases "0 \<le> k")
  case True
  then have "\<lfloor>(of_int k :: rat) + 1 / 2\<rfloor> = k" by linarith
  with True show ?thesis by (simp add: roundHalfUp_def)
next
  case False
  then have "\<lfloor>- (of_int k :: rat) + 1 / 2\<rfloor> = - k" by linarith
  with False show ?thesis by (simp add: roundHalfUp_def)
qed

lemma isScale_iff: "isScale dp x \<longleftrightarrow> (\<exists>k::int. x = of_int k / 10 ^ dp)"
proof
  assume "isScale dp x"
  then show "\<exists>k::int. x = of_int k / 10 ^ dp"
    unfolding isScale_def toDecimalPlaces_def by metis
next
  assume "\<exists>k::int. x = of_int k / 10 ^ dp"
  then obtain k :: int where k: "x = of_int k / 10 ^ dp" by blast
  then have "x * 10 ^ dp = of_int k" by simp
  then show "isScale dp x"
    unfolding isScale_def toDecimalPlaces_def using k by (simp add: roundHalfUp_of_int)
qed

lemma isScale_toDecimalPlaces: "isScale dp (toDecimalPlaces dp x)"
  unfolding isScale_iff toDecimalPlaces_def by blast

lemma isScale_intermediate: "isScale 7 (intermediate x)"
  by (simp add: intermediate_def isScale_toDecimalPlaces)




lemma toFixed7_id: "isScale 7 x \<Longrightarrow> toFixed 7 x = x"
  by (simp add: isScale_def toFixed_def)



text \<open>The unfoldings that evaluate the engine on a concrete request.\<close>

lemmas decimal_defs = intermediate_def final_def toFixed_def toDecimalPlaces_def roundHalfUp_def

lemmas string_defs = strOr_def strOrElse_def toUpperCase_def upperChar_def toLowerCase_def
  lowerChar_def

lemmas normalize_defs = emptyItem_def emptyModifier_def retailConfig_def normalizeInput_def
  normalizeLineItem_def normalizeModifier_def normalizeConfig_def groupModifiers_def
  chainPriority_def groupStep_def resolveModifierTaxSetting_def groupKey_def newGroup_def
  modifierAttributes_def validateInput_def maxModifiers_def maxLineItems_def
  maxDependencyDepth_def

lemmas engine_defs = Let_def calculateStates_def initialState_def computeBaseSubtotal_def
  applyModifierGroups_def calculateGroupAdjustment_def groupModifierType_def totalPercent_def
  totalFixed_def percentValue_def fixedValue_def calculateMarginAdjustment_def marginValue_def marginLineDelta_def
  calculateTaxes_def taxableBaseOf_def calculateUseTaxBase_def buildResult_def calculate_def

section \<open>PureCalculationEngine: conservation of the customer total\<close>









section \<open>PureCalculationEngine: percentage groups\<close>






text \<open>
  The archived engine does restrict the base of a taxable or non-taxable percentage group,
  to the line totals of that setting (not to a part of the running total), and returns
  the product unrounded; for any other setting of the group the base is the running total.
\<close>

lemma compliant_percentage_example:
  "applyGroup_percentage discountAttributes [emptyModifier \<lparr> m_id := ''d'', m_percent := NumV (- 10) \<rparr>]
     525 mixedRawItems = - 30 \<and>
   applyGroup_percentage (discountAttributes \<lparr> a_tax_setting := Some ''inherit'' \<rparr>)
     [emptyModifier \<lparr> m_id := ''d'', m_percent := NumV (- 10) \<rparr>] 525 mixedRawItems = - 105 / 2"
  by (simp add: applyGroup_percentage_def partitionBase_def sortedModifiers_def lineTotal_def
        mixedRawItems_def discountAttributes_def emptyItem_def emptyModifier_def
        chainPriority_def string_defs Let_def)

section \<open>PureCalculationEngine: margin groups\<close>












section \<open>PureCalculationEngine: the values of a group's modifiers\<close>


lemma groupModifierType_modifiers [simp]:
  "groupModifierType (g \<lparr> g_modifiers := ms \<rparr>) = groupModifierType g"
  by (simp add: groupModifierType_def split: option.splits)

lemma summedModifier_values [simp]:
  "percentValue (summedModifier v) = v" "fixedValue (summedModifier v) = v"
  by (simp_all add: summedModifier_def emptyModifier_def percentValue_def fixedValue_def)



section \<open>PureCalculationEngine: the use-tax scenario\<close>

lemma useTax_states:
  "calculateStates (useTaxInput ''USE_TAX'') = Inr (useTaxState \<lparr> useTaxAmount := 0 \<rparr>, useTaxState)"
  "calculateStates (useTaxInput ''MIXED'') = Inr (useTaxState \<lparr> useTaxAmount := 0 \<rparr>, useTaxState)"
  by (simp_all add: useTaxInput_def useTaxState_def normalize_defs engine_defs string_defs
        decimal_defs)

text \<open>
  C4, as stated, fails. In tax mode USE_TAX the result has neither a \<open>useTax\<close> nor an
  \<open>internalGrandTotal\<close> field (and no result ever has a \<open>useTaxBase\<close> field), so it does
  not return useTax 80.00 and internalGrandTotal 80.00.
\<close>

theorem use_tax_mode_counterexample:
  "calculate (useTaxInput ''USE_TAX'') = Inr (useTaxResult None) \<and>
   useTax (useTaxResult None) \<noteq> Some 80 \<and>
   internalGrandTotal (useTaxResult None) \<noteq> Some 80"
  unfolding calculate_def useTax_states
  by (simp add: useTaxInput_def useTaxState_def useTaxResult_def normalizeConfig_def
        buildResult_def string_defs decimal_defs)

text \<open>
  C4, amended. For that request in mode USE_TAX the engine finds the use-tax base 1000 and
  the use tax 80 in its state and returns subtotal 0.00, retail tax 0.00 and
  customerGrandTotal 0.00, without the fields useTax and internalGrandTotal; in mode MIXED
  the same request returns useTax 80.00 and internalGrandTotal 80.00 besides.
\<close>

theorem use_tax_scenario:
  "calculateUseTaxBase (ni_lineItems (normalizeInput (useTaxInput ''USE_TAX''))) = 1000 \<and>
   calculateStates (useTaxInput ''USE_TAX'') = Inr (useTaxState \<lparr> useTaxAmount := 0 \<rparr>, useTaxState) \<and>
   useTaxAmount useTaxState = 80 \<and>
   calculate (useTaxInput ''USE_TAX'') = Inr (useTaxResult None) \<and>
   customerGrandTotal (useTaxResult None) = 0 \<and>
   calculate (useTaxInput ''MIXED'') = Inr (useTaxResult (Some 80))"
  unfolding calculate_def useTax_states
  by (simp add: useTaxInput_def useTaxState_def useTaxResult_def normalize_defs
        calculateUseTaxBase_def buildResult_def string_defs decimal_defs)

section \<open>Line items without a recognised tax setting\<close>

text \<open>
  In the archived engine's \<open>calculateBase\<close> every line that does not say NON_TAXABLE joins
  the taxable partition.
\<close>

lemma calculateBase_fold:
  "foldl (\<lambda>(sub, taxableSubtotal, nonTaxableSubtotal) item.
            let total = lineTotal item;
                setting = toUpperCase (strOrElse (tax_setting item) ''TAXABLE'')
            in if setting = ''TAXABLE''
                 then (sub + total, taxableSubtotal + total, nonTaxableSubtotal)
               else if setting = ''NON_TAXABLE''
                 then (sub + total, taxableSubtotal, nonTaxableSubtotal + total)
               else (sub + total, taxableSubtotal + total, nonTaxableSubtotal))
     (s, t, n) items =
   (s + sum_list (map lineTotal items),
    t + sum_list (map lineTotal
          (filter (\<lambda>item. toUpperCase (strOrElse (tax_setting item) ''TAXABLE'') \<noteq> ''NON_TAXABLE'') items)),
    n + sum_list (map lineTotal
          (filter (\<lambda>item. toUpperCase (strOrElse (tax_setting item) ''TAXABLE'') = ''NON_TAXABLE'') items)))"
  by (induction items arbitrary: s t n) (simp_all add: Let_def)

lemma calculateBase_taxable:
  "bc_taxableSubtotal (calculateBase items) =
     intermediate (sum_list (map lineTotal
       (filter (\<lambda>item. toUpperCase (strOrElse (tax_setting item) ''TAXABLE'') \<noteq> ''NON_TAXABLE'') items)))"
  unfolding calculateBase_def calculateBase_fold
  using isScale_intermediate toFixed7_id by simp





text \<open>
  A line of quantity 0 is outside the amended claim: \<open>item.quantity || 1\<close> makes
  \<open>calculateTaxes\<close> count it once, while the subtotal counts it not at all.
\<close>

lemma zero_quantity_tax_base:
  "computeBaseSubtotal [marginItem \<lparr> n_quantity := 0 \<rparr>] = 0 \<and>
   taxableBaseOf (initialState (normalizeInput mixedInput)) [marginItem \<lparr> n_quantity := 0 \<rparr>] = 100"
  by (simp add: marginItem_def initialState_def taxableBaseOf_def computeBaseSubtotal_def
        string_defs decimal_defs)

section \<open>CompliantCalculationEngine: allocation of a fixed amount\<close>









lemmas fixed_defs = applyGroup_fixed_def fixedAdjustment_def sortedModifiers_def totalBase_def
  lineTotal_def firstPass_def adjustLast_def allocationSum_def groupAmountQ7_def
  fixedModifier_def emptyModifier_def emptyItem_def chainPriority_def Let_def


text \<open>
  An amount exactly halfway between two Q7 values escapes the correction of the last
  allocation: 0.00000005 on one line is first allocated as 0.0000001, the difference
  -0.00000005 rounds away from zero to -0.0000001, and the allocation ends as 0 while the
  group's amount is recorded as 0.0000001.
\<close>

lemma fixed_allocation_tie:
  "isTie 7 (5 / 10 ^ 8) \<and>
   allocationSum (applyGroup_fixed [fixedModifier (5 / 10 ^ 8)]
      [emptyItem \<lparr> unitPrice := StrV 100, quantity := NumV 1 \<rparr>]) = 0 \<and>
   groupAmountQ7 (applyGroup_fixed [fixedModifier (5 / 10 ^ 8)]
      [emptyItem \<lparr> unitPrice := StrV 100, quantity := NumV 1 \<rparr>]) = 1 / 10 ^ 7"
  by (simp add: fixed_defs decimal_defs isTie_def frac_def)



section \<open>CalculationResult: the checksum\<close>

lemma sorted_checksum_keys:
  "sort (objectKeys (checksumData r)) = [''precise'', ''proposalId'', ''version'']"
  by (simp add: checksumData_def)

text \<open>
  The text that \<open>CalculationResult.generateChecksum\<close> hashes. The replacer array holds
  the three top-level keys, so no property of the nested object \<open>precise\<close> is written.
\<close>

lemma checksum_text:
  "the (stringifyWith (sort (objectKeys (checksumData r))) (checksumData r)) =
     ''{'' @ quoteJSON ''precise'' @ '':{},'' @ quoteJSON ''proposalId'' @ '':''
       @ quoteJSON (cr_proposalId r) @ '','' @ quoteJSON ''version'' @ '':''
       @ showNat (cr_version r) @ ''}''"
  unfolding sorted_checksum_keys
  by (simp add: checksumData_def)

text \<open>
  C5 fails for \<open>CalculationResult.generateChecksum\<close>: the checksum depends on the
  proposal id and the version only, so two results that differ in every monetary field
  have the same checksum, whatever the hash function.
\<close>

theorem result_checksum_ignores_amounts:
  "resultChecksum sha256 resultA = resultChecksum sha256 resultB \<and>
   subtotalPrecise resultA \<noteq> subtotalPrecise resultB \<and>
   grandTotalPrecise resultA \<noteq> grandTotalPrecise resultB"
  unfolding resultChecksum_def checksum_text
  by (simp add: resultA_def resultB_def)

lemma result_checksum_general:
  "cr_proposalId r = cr_proposalId r' \<Longrightarrow> cr_version r = cr_version r' \<Longrightarrow>
   resultChecksum sha256 r = resultChecksum sha256 r'"
  unfolding resultChecksum_def checksum_text by simp

text \<open>
  \<open>PureCalculationEngine.generateChecksum\<close>, by contrast, hashes every field, with the
  keys in sorted order.
\<close>

lemma pure_checksum_text:
  "generateChecksum sha256 (JObj [(''subtotal'', JStr a), (''customerGrandTotal'', JStr b)]) =
     sha256 (''{'' @ quoteJSON ''customerGrandTotal'' @ '':'' @ quoteJSON b @ '',''
              @ quoteJSON ''subtotal'' @ '':'' @ quoteJSON a @ ''}'')"
  by (simp add: generateChecksum_def)

section \<open>SafeRuleEvaluator: the limits\<close>

lemma guard_depth: "depth > maxDepth \<Longrightarrow> guard depth count body = (Inl (DepthExceeded depth), count)"
  by (simp add: guard_def)

lemma guard_operations:
  "depth \<le> maxDepth \<Longrightarrow> count \<ge> maxOperations \<Longrightarrow>
   guard depth count body = (Inl (OperationsExceeded (count + 1)), count + 1)"
  by (simp add: guard_def)

lemma guard_pass:
  "depth \<le> maxDepth \<Longrightarrow> count < maxOperations \<Longrightarrow> guard depth count body = body (count + 1)"
  by (simp add: guard_def)

lemma evalNode_guard:
  "\<exists>body. evalNode cmp ctx node depth count = guard depth count body"
  by (cases node) auto

lemma evalNode_depth:
  "depth > maxDepth \<Longrightarrow> evalNode cmp ctx node depth count = (Inl (DepthExceeded depth), count)"
  using evalNode_guard [of cmp ctx node depth count] by (auto simp: guard_depth)

lemma evalNode_operations:
  "depth \<le> maxDepth \<Longrightarrow> count \<ge> maxOperations \<Longrightarrow>
   evalNode cmp ctx node depth count = (Inl (OperationsExceeded (count + 1)), count + 1)"
  using evalNode_guard [of cmp ctx node depth count] by (auto simp: guard_operations)

lemma evalNode_success:
  "evalNode cmp ctx node depth count = (Inr v, count') \<Longrightarrow>
   depth \<le> maxDepth \<and> count < count' \<and> count' \<le> maxOperations"
proof (induction node arbitrary: depth count v count')
  case (Comparison op l r)
  from Comparison.prems have d: "depth \<le> maxDepth" and c: "count < maxOperations"
    by (auto simp: guard_def split: if_splits)
  from Comparison.prems d c obtain lv c1 rv where
    l: "evalNode cmp ctx l (depth + 1) (count + 1) = (Inr lv, c1)"
    and r: "evalNode cmp ctx r (depth + 1) c1 = (Inr rv, count')"
    by (auto simp: guard_pass split: prod.splits sum.splits)
  from Comparison.IH(1) [OF l] Comparison.IH(2) [OF r] d show ?case by simp
next
  case (Logical op l r)
  from Logical.prems have d: "depth \<le> maxDepth" and c: "count < maxOperations"
    by (auto simp: guard_def split: if_splits)
  from Logical.prems d c obtain lv c1 where
    l: "evalNode cmp ctx l (depth + 1) (count + 1) = (Inr lv, c1)"
    and r: "count' = c1 \<or> (\<exists>rv. evalNode cmp ctx r (depth + 1) c1 = (Inr rv, count'))"
    by (auto simp: guard_pass split: prod.splits sum.splits if_splits)
  from r show ?case
  proof
    assume "count' = c1"
    with Logical.IH(1) [OF l] d show ?thesis by simp
  next
    assume "\<exists>rv. evalNode cmp ctx r (depth + 1) c1 = (Inr rv, count')"
    then obtain rv where "evalNode cmp ctx r (depth + 1) c1 = (Inr rv, count')" by blast
    from Logical.IH(1) [OF l] Logical.IH(2) [OF this] d show ?thesis by simp
  qed
next
  case (Literal x)
  then show ?case by (auto simp: guard_def maxOperations_def split: if_splits)
next
  case (Field x)
  then show ?case by (auto simp: guard_def maxOperations_def split: if_splits)
next
  case (Other x)
  then show ?case by (auto simp: guard_def split: if_splits)
qed

lemma evalNode_counter:
  "evalNode cmp ctx node depth count = (res, count') \<Longrightarrow> count \<le> maxOperations \<Longrightarrow>
   count \<le> count' \<and> count' \<le> maxOperations + 1"
proof (induction node arbitrary: depth count res count')
  case (Comparison op l r)
  show ?case
  proof (cases "depth \<le> maxDepth \<and> count < maxOperations")
    case False
    with Comparison.prems show ?thesis
      by (auto simp: guard_def split: if_splits)
  next
    case True
    obtain lres c1 where l: "evalNode cmp ctx l (depth + 1) (count + 1) = (lres, c1)"
      by (cases "evalNode cmp ctx l (depth + 1) (count + 1)")
    from True have c: "count + 1 \<le> maxOperations" by simp
    from Comparison.IH(1) [OF l c] have b1: "count + 1 \<le> c1" "c1 \<le> maxOperations + 1" by simp_all
    show ?thesis
    proof (cases lres)
      case (Inl e)
      with Comparison.prems True l b1 show ?thesis by (simp add: guard_pass)
    next
      case (Inr lv)
      with l evalNode_success have c1: "c1 \<le> maxOperations" by blast
      obtain rres c2 where r: "evalNode cmp ctx r (depth + 1) c1 = (rres, c2)"
        by (cases "evalNode cmp ctx r (depth + 1) c1")
      from Comparison.IH(2) [OF r c1] have b2: "c1 \<le> c2" "c2 \<le> maxOperations + 1" by simp_all
      from Comparison.prems True l Inr r have "count' = c2"
        by (auto simp: guard_pass split: sum.splits)
      with b1 b2 show ?thesis by simp
    qed
  qed
next
  case (Logical op l r)
  show ?case
  proof (cases "depth \<le> maxDepth \<and> count < maxOperations")
    case False
    with Logical.prems show ?thesis
      by (auto simp: guard_def split: if_splits)
  next
    case True
    obtain lres c1 where l: "evalNode cmp ctx l (depth + 1) (count + 1) = (lres, c1)"
      by (cases "evalNode cmp ctx l (depth + 1) (count + 1)")
    from True have c: "count + 1 \<le> maxOperations" by simp
    from Logical.IH(1) [OF l c] have b1: "count + 1 \<le> c1" "c1 \<le> maxOperations + 1" by simp_all
    obtain rres c2 where r: "evalNode cmp ctx r (depth + 1) c1 = (rres, c2)"
      by (cases "evalNode cmp ctx r (depth + 1) c1")
    have b2: "c1 \<le> maxOperations \<Longrightarrow> c1 \<le> c2 \<and> c2 \<le> maxOperations + 1"
      using Logical.IH(2) [OF r] by simp
    have c1ok: "\<And>lv. lres = Inr lv \<Longrightarrow> c1 \<le> maxOperations"
      using l evalNode_success by blast
    from Logical.prems True l r have "count' = count + 1 \<or> count' = c1 \<or> (\<exists>lv. lres = Inr lv \<and> count' = c2)"
      by (auto simp: guard_pass split: sum.splits if_splits)
    with b1 b2 c1ok show ?thesis by auto
  qed
next
  case (Literal x)
  then show ?case by (auto simp: guard_def split: if_splits)
next
  case (Field x)
  then show ?case by (auto simp: guard_def split: if_splits)
next
  case (Other x)
  then show ?case by (auto simp: guard_def split: if_splits)
qed

text \<open>
  C9. A string is only ever a value: a literal, strings included, is returned as it
  stands. An evaluation entered at a depth above 10 throws at once and leaves the counter
  alone; one entered as node evaluation number 1001 or later throws at once; an
  evaluation that returns a value has stayed within depth 10 and within 1000 node
  evaluations; and whatever the outcome, the counter never passes 1001, so nothing is
  evaluated after the limit has been exceeded.
\<close>

theorem rule_evaluation_limits:
  "(depth > maxDepth \<longrightarrow>
      evalNode cmp ctx node depth count = (Inl (DepthExceeded depth), count))
   \<and> (depth \<le> maxDepth \<and> count \<ge> maxOperations \<longrightarrow>
      evalNode cmp ctx node depth count = (Inl (OperationsExceeded (count + 1)), count + 1))
   \<and> (evalNode cmp ctx node depth count = (Inr v, count') \<longrightarrow>
      depth \<le> maxDepth \<and> count < count' \<and> count' \<le> maxOperations)
   \<and> (depth \<le> maxDepth \<and> count < maxOperations \<longrightarrow>
      evalNode cmp ctx (Literal lit) depth count = (Inr lit, count + 1))
   \<and> (count \<le> maxOperations \<and> evalNode cmp ctx node depth count = (res, final_count) \<longrightarrow>
      count \<le> final_count \<and> final_count \<le> maxOperations + 1)"
  using evalNode_depth [of depth cmp ctx node count]
    evalNode_operations [of depth count cmp ctx node]
    evalNode_success [of cmp ctx node depth count v count']
    evalNode_counter [of cmp ctx node depth count res final_count]
  by (auto simp: guard_pass)

lemma nested_eval:
  "evaluate cmp (nested 11) ctx = (Inl (DepthExceeded 11), 11)"
  by (simp add: evaluate_def guard_def maxDepth_def maxOperations_def eval_nat_numeral)

theorem rule_evaluation_limits_witness:
  "(11::nat) > maxDepth \<and>
   evalNode (\<lambda>l r op. Inr (VBool (l = r))) VNull (nested 3) 11 0 = (Inl (DepthExceeded 11), 0) \<and>
   (0::nat) \<le> maxDepth \<and> (1000::nat) \<ge> maxOperations \<and>
   evalNode (\<lambda>l r op. Inr (VBool (l = r))) VNull (nested 3) 0 1000
     = (Inl (OperationsExceeded 1001), 1001) \<and>
   evalNode (\<lambda>l r op. Inr (VBool (l = r))) VNull (nested 1) 0 0 = (Inr (VBool True), 3) \<and>
   (3::nat) \<le> maxOperations \<and>
   evalNode (\<lambda>l r op. Inr (VBool (l = r))) VNull (Literal (VStr ''process.exit()'')) 0 0
     = (Inr (VStr ''process.exit()''), 1)"
proof -
  have h: "(11::nat) > maxDepth" "(0::nat) \<le> maxDepth" "(1000::nat) \<ge> maxOperations"
    "(0::nat) < maxOperations"
    by (simp_all add: maxDepth_def maxOperations_def)
  have e: "evalNode (\<lambda>l r op. Inr (VBool (l = r))) VNull (nested 1) 0 0 = (Inr (VBool True), 3)"
    by (simp add: guard_def maxDepth_def maxOperations_def eval_nat_numeral)
  from rule_evaluation_limits
         [of 11 "\<lambda>l r op. Inr (VBool (l = r))" VNull "nested 3" 0 "VBool True" 3 "VStr ''process.exit()''"]
    rule_evaluation_limits
         [of 0 "\<lambda>l r op. Inr (VBool (l = r))" VNull "nested 3" 1000 "VBool True" 3 "VStr ''process.exit()''"]
    rule_evaluation_limits
         [of 0 "\<lambda>l r op. Inr (VBool (l = r))" VNull "nested 1" 0 "VBool True" 3 "VStr ''process.exit()''"]
    h e
  show ?thesis by simp
qed

section \<open>PostProcessor: idempotent replay\<close>

lemmas process_defs = process_def executeInTransaction_def persistRow_def outboxEvent_def
  strOr_def strOrElse_def Let_def

lemma executeInTransaction_success:
  assumes "executeInTransaction f result request st = (Inr finalResult, st')"
  shows "calculation_results st' = calculation_results st @ [persistRow finalResult]"
    and "event_outbox st' = event_outbox st @ [outboxEvent finalResult]"
    and "calc_audit st' = calc_audit st"
    and "idempotencyCache st' = idempotencyCache st"
  using assms
  by (auto simp: executeInTransaction_def Let_def split: if_splits)

lemma executeInTransaction_audit:
  "calc_audit (snd (executeInTransaction f result request st)) = calc_audit st"
  by (simp add: executeInTransaction_def Let_def)

lemma process_audit:
  "calc_audit (snd (process f result request st)) = calc_audit st"
  using executeInTransaction_audit [of f result request st]
  by (auto simp: process_def split: option.splits prod.splits sum.splits)

text \<open>
  C8, as stated, fails in one point: the commit stage writes no audit row. After the same
  result has been submitted twice to an empty store, the table \<open>calculation_results\<close>
  has received one upsert and the outbox one event, and both responses are equal, but the
  audit table is still empty.
\<close>

theorem audit_row_counterexample:
  "fst (process noFaults sampleResult sampleRequest emptyState)
     = Inr (sampleResult \<lparr> pr_proposalId := Some ''p1'' \<rparr>) \<and>
   fst (process noFaults sampleResult sampleRequest afterFirst)
     = Inr (sampleResult \<lparr> pr_proposalId := Some ''p1'' \<rparr>) \<and>
   length (calculation_results afterSecond) = 1 \<and>
   length (event_outbox afterSecond) = 1 \<and>
   length (calc_audit afterSecond) = 0 \<and>
   length (calc_audit afterSecond) \<noteq> 1"
  by (simp add: afterSecond_def afterFirst_def sampleResult_def sampleRequest_def emptyState_def
        noFaults_def process_defs)

text \<open>
  C8, amended. If the idempotency store already holds a result under the submitted
  result's checksum, \<open>process\<close> returns that stored result and changes nothing: no
  database write, no outbox insert, no cache update, no webhook call, no metric. So when a
  first submission has succeeded, a second submission with the same checksum returns the
  first response and leaves the state as the first left it: one upsert of
  \<open>calculation_results\<close> and one outbox event in all. The commit stage never writes an
  audit row.
\<close>

theorem idempotent_replay:
  "(idempotencyCache st (pr_checksum result) = Some existing \<longrightarrow>
      process f result request st = (Inr existing, st))
   \<and> (idempotencyCache st (pr_checksum result) = None \<and>
      process f result request st = (Inr first, st1) \<and>
      pr_checksum result' = pr_checksum result \<longrightarrow>
        process f' result' request' st1 = (Inr first, st1) \<and>
        calculation_results st1 = calculation_results st @ [persistRow first] \<and>
        event_outbox st1 = event_outbox st @ [outboxEvent first])
   \<and> calc_audit (snd (process f result request st)) = calc_audit st"
proof (intro conjI impI)
  assume "idempotencyCache st (pr_checksum result) = Some existing"
  then show "process f result request st = (Inr existing, st)"
    by (simp add: process_def)
next
  assume h: "idempotencyCache st (pr_checksum result) = None \<and>
      process f result request st = (Inr first, st1) \<and>
      pr_checksum result' = pr_checksum result"
  then obtain st' where
    tx: "executeInTransaction f result request st = (Inr first, st')"
    and st1: "st1 = st' \<lparr> idempotencyCache := (idempotencyCache st')(pr_checksum result \<mapsto> first) \<rparr>"
    by (auto simp: process_def split: prod.splits sum.splits)
  from st1 h have hit: "idempotencyCache st1 (pr_checksum result') = Some first" by simp
  then show "process f' result' request' st1 = (Inr first, st1)"
    by (simp add: process_def)
  from executeInTransaction_success [OF tx] st1
  show "calculation_results st1 = calculation_results st @ [persistRow first]"
    and "event_outbox st1 = event_outbox st @ [outboxEvent first]"
    by simp_all
next
  show "calc_audit (snd (process f result request st)) = calc_audit st"
    by (rule process_audit)
qed

theorem idempotent_replay_witness:
  "idempotencyCache afterFirst (pr_checksum sampleResult)
     = Some (sampleResult \<lparr> pr_proposalId := Some ''p1'' \<rparr>) \<and>
   process noFaults sampleResult sampleRequest afterFirst
     = (Inr (sampleResult \<lparr> pr_proposalId := Some ''p1'' \<rparr>), afterFirst) \<and>
   idempotencyCache emptyState (pr_checksum sampleResult) = None \<and>
   process noFaults sampleResult sampleRequest emptyState
     = (Inr (sampleResult \<lparr> pr_proposalId := Some ''p1'' \<rparr>), afterFirst) \<and>
   calculation_results afterFirst = [persistRow (sampleResult \<lparr> pr_proposalId := Some ''p1'' \<rparr>)] \<and>
   event_outbox afterFirst = [outboxEvent (sampleResult \<lparr> pr_proposalId := Some ''p1'' \<rparr>)] \<and>
   calc_audit afterFirst = []"
proof -
  have a: "idempotencyCache afterFirst (pr_checksum sampleResult)
     = Some (sampleResult \<lparr> pr_proposalId := Some ''p1'' \<rparr>)"
    by (simp add: afterFirst_def sampleResult_def sampleRequest_def emptyState_def noFaults_def
          process_defs)
  have b: "idempotencyCache emptyState (pr_checksum sampleResult) = None"
    by (simp add: emptyState_def)
  have c: "process noFaults sampleResult sampleRequest emptyState
     = (Inr (sampleResult \<lparr> pr_proposalId := Some ''p1'' \<rparr>), afterFirst)"
    unfolding afterFirst_def
    by (simp add: sampleResult_def sampleRequest_def emptyState_def noFaults_def process_defs)
  have d: "calculation_results emptyState = []" "event_outbox emptyState = []"
    "calc_audit emptyState = []"
    by (simp_all add: emptyState_def)
  from idempotent_replay
      [of afterFirst sampleResult "sampleResult \<lparr> pr_proposalId := Some ''p1'' \<rparr>" noFaults
          sampleRequest "sampleResult \<lparr> pr_proposalId := Some ''p1'' \<rparr>" afterFirst sampleResult
          noFaults sampleRequest]
    idempotent_replay
      [of emptyState sampleResult "sampleResult \<lparr> pr_proposalId := Some ''p1'' \<rparr>" noFaults
          sampleRequest "sampleResult \<lparr> pr_proposalId := Some ''p1'' \<rparr>" afterFirst sampleResult
          noFaults sampleRequest]
    a b c d
  show ?thesis by simp
qed

end
